theory Spec2Isabelle
  imports Complex_Main "HOL-Library.Sublist"
begin

section \<open>Python text and values\<close>

text \<open>
  A Python \<open>str\<close> is a sequence of Unicode code points, and \<open>len\<close>, slicing and the
  \<open>re\<close> module all count code points. A text is therefore a list of code points, each a
  natural number; \<open>asc\<close> turns an ASCII literal into such a text.
\<close>

type_synonym pystr = "nat list"

definition asc :: "string \<Rightarrow> pystr" where
  "asc s = map of_char s"

text \<open>
  Python floats are created here only by \<open>float\<close> on a decimal numeral and by the JSON
  decoder, and they are only printed, never computed with. \<open>Fin x\<close> stands for the double
  nearest to the rational \<open>x\<close>; the model keeps \<open>x\<close> itself, which is the double exactly
  whenever \<open>x\<close> has at most 15 significant decimal digits and a magnitude between
  \<open>1e-4\<close> and \<open>1e16\<close> (or is zero).
\<close>

datatype pyfloat = Fin rat | NaN | PosInf | NegInf

datatype pyval =
    PyNone
  | PyBool bool
  | PyInt int
  | PyFloat pyfloat
  | PyStr pystr
  | PyList "pyval list"
  | PyDict "(pystr \<times> pyval) list"

section \<open>ScoreExtractor: the regular expression of \<open>nota_match\<close>\<close>

text \<open>
  \<^verbatim>\<open>re.search(r"Nota geral de 0 a 10 da MINHA performance.*:?\s*(\d+(\.\d+)?)",
            resposta_raw, re.IGNORECASE | re.DOTALL)\<close>

  The character classes are those of Python 3.11 (Unicode 14.0). \<open>\d\<close> matches the
  characters of category Nd, which come in runs of ten, from the digit zero of a script to
  its digit nine; \<open>decimal_zeros\<close> lists the zeros.
\<close>

definition decimal_zeros :: "nat list" where
  "decimal_zeros =
    [0x30, 0x660, 0x6F0, 0x7C0, 0x966, 0x9E6, 0xA66, 0xAE6, 0xB66, 0xBE6, 0xC66, 0xCE6,
     0xD66, 0xDE6, 0xE50, 0xED0, 0xF20, 0x1040, 0x1090, 0x17E0, 0x1810, 0x1946, 0x19D0,
     0x1A80, 0x1A90, 0x1B50, 0x1BB0, 0x1C40, 0x1C50, 0xA620, 0xA8D0, 0xA900, 0xA9D0,
     0xA9F0, 0xAA50, 0xABF0, 0xFF10, 0x104A0, 0x10D30, 0x11066, 0x110F0, 0x11136,
     0x111D0, 0x112F0, 0x11450, 0x114D0, 0x11650, 0x116C0, 0x11730, 0x118E0, 0x11950,
     0x11C50, 0x11D50, 0x11DA0, 0x16A60, 0x16AC0, 0x16B50, 0x1D7CE, 0x1D7D8, 0x1D7E2,
     0x1D7EC, 0x1D7F6, 0x1E140, 0x1E2F0, 0x1E950, 0x1FBF0]"

definition decimal_value :: "nat \<Rightarrow> nat option" where
  "decimal_value c =
     (case find (\<lambda>z. z \<le> c \<and> c < z + 10) decimal_zeros of
        None \<Rightarrow> None
      | Some z \<Rightarrow> Some (c - z))"

definition is_digit :: "nat \<Rightarrow> bool" where
  "is_digit c = (decimal_value c \<noteq> None)"

text \<open>\<open>\s\<close> on a \<open>str\<close> pattern.\<close>

definition whitespace_chars :: "nat list" where
  "whitespace_chars =
    [0x9, 0xA, 0xB, 0xC, 0xD, 0x1C, 0x1D, 0x1E, 0x1F, 0x20, 0x85, 0xA0, 0x1680,
     0x2000, 0x2001, 0x2002, 0x2003, 0x2004, 0x2005, 0x2006, 0x2007, 0x2008, 0x2009,
     0x200A, 0x2028, 0x2029, 0x202F, 0x205F, 0x3000]"

definition is_space :: "nat \<Rightarrow> bool" where
  "is_space c = (c \<in> set whitespace_chars)"

text \<open>
  The code points an ASCII character of the pattern matches under \<open>re.IGNORECASE\<close>: both
  cases of a letter, and the four non-ASCII letters whose lower case is \<open>i\<close>, \<open>k\<close> or \<open>s\<close>.
\<close>

definition ignorecase_extra :: "nat \<Rightarrow> nat list" where
  "ignorecase_extra l =
     (if l = 0x69 then [0x130, 0x131]
      else if l = 0x6B then [0x212A]
      else if l = 0x73 then [0x17F]
      else [])"

definition ignorecase_variants :: "nat \<Rightarrow> nat list" where
  "ignorecase_variants p =
     (if 0x41 \<le> p \<and> p \<le> 0x5A then [p, p + 0x20] @ ignorecase_extra (p + 0x20)
      else if 0x61 \<le> p \<and> p \<le> 0x7A then [p - 0x20, p] @ ignorecase_extra p
      else [p])"

definition nota_label :: pystr where
  "nota_label = asc ''Nota geral de 0 a 10 da MINHA performance''"

text \<open>
  Two notions to state properties with: a text that equals a pattern up to the case of
  its letters, and a text with a digit somewhere in it.
\<close>

definition ci_equal :: "pystr \<Rightarrow> pystr \<Rightarrow> bool" where
  "ci_equal ps cs = list_all2 (\<lambda>p c. c \<in> set (ignorecase_variants p)) ps cs"

definition has_digit :: "pystr \<Rightarrow> bool" where
  "has_digit s = (\<exists>c \<in> set s. is_digit c)"


text \<open>The literal part of the pattern, from the head of the text; the result is the rest.\<close>

fun match_literal :: "pystr \<Rightarrow> pystr \<Rightarrow> pystr option" where
  "match_literal [] s = Some s"
| "match_literal (p # ps) [] = None"
| "match_literal (p # ps) (c # cs) =
     (if c \<in> set (ignorecase_variants p) then match_literal ps cs else None)"

text \<open>
  \<open>(\d+(\.\d+)?)\<close> at the head of the text, as the last item of the pattern: \<open>\d+\<close> takes
  every digit there is, the optional group takes a point and the digits after it when
  there is at least one, and the match ends. The result is group 1.
\<close>

definition match_number :: "pystr \<Rightarrow> pystr option" where
  "match_number s =
     (let ds = takeWhile is_digit s; r = dropWhile is_digit s in
      if ds = [] then None
      else (case r of
              [] \<Rightarrow> Some ds
            | c # r' \<Rightarrow>
                if c = 0x2E \<and> takeWhile is_digit r' \<noteq> []
                then Some (ds @ [0x2E] @ takeWhile is_digit r')
                else Some ds))"

text \<open>\<open>\s*\<close> is greedy: one more space first, and only when the rest fails, none.\<close>

fun match_spaces_number :: "pystr \<Rightarrow> pystr option" where
  "match_spaces_number [] = match_number []"
| "match_spaces_number (c # cs) =
     (if is_space c
      then (case match_spaces_number cs of
              Some g \<Rightarrow> Some g
            | None \<Rightarrow> match_number (c # cs))
      else match_number (c # cs))"

text \<open>\<open>:?\<close> is greedy: with the colon first, then without.\<close>

definition match_colon_spaces_number :: "pystr \<Rightarrow> pystr option" where
  "match_colon_spaces_number s =
     (case s of
        [] \<Rightarrow> match_spaces_number []
      | c # cs \<Rightarrow>
          if c = 0x3A
          then (case match_spaces_number cs of
                  Some g \<Rightarrow> Some g
                | None \<Rightarrow> match_spaces_number s)
          else match_spaces_number s)"

text \<open>
  \<open>.*\<close> under \<open>re.DOTALL\<close> takes any character, the line feed too, and is greedy: the
  longest stretch is tried first and given back one character at a time.
\<close>

fun match_dotall_tail :: "pystr \<Rightarrow> pystr option" where
  "match_dotall_tail [] = match_colon_spaces_number []"
| "match_dotall_tail (c # cs) =
     (case match_dotall_tail cs of
        Some g \<Rightarrow> Some g
      | None \<Rightarrow> match_colon_spaces_number (c # cs))"

definition match_here :: "pystr \<Rightarrow> pystr option" where
  "match_here s =
     (case match_literal nota_label s of
        None \<Rightarrow> None
      | Some r \<Rightarrow> match_dotall_tail r)"

text \<open>\<open>re.search\<close>: the match at the leftmost position that has one; group 1 of it.\<close>

fun re_search :: "pystr \<Rightarrow> pystr option" where
  "re_search [] = match_here []"
| "re_search (c # cs) =
     (case match_here (c # cs) of
        Some g \<Rightarrow> Some g
      | None \<Rightarrow> re_search cs)"

text \<open>
  \<open>float(nota_match.group(1))\<close>: the value of a numeral of the form \<open>\d+(\.\d+)?\<close>, the
  only texts group 1 can hold.
\<close>

definition digits_value :: "pystr \<Rightarrow> nat" where
  "digits_value ds = foldl (\<lambda>n c. 10 * n + (case decimal_value c of Some v \<Rightarrow> v | None \<Rightarrow> 0)) 0 ds"

definition float_of_numeral :: "pystr \<Rightarrow> pyfloat" where
  "float_of_numeral g =
     (let ip = takeWhile (\<lambda>c. c \<noteq> 0x2E) g;
          fp = drop 1 (dropWhile (\<lambda>c. c \<noteq> 0x2E) g)
      in Fin (of_nat (digits_value ip) + of_nat (digits_value fp) / 10 ^ length fp))"

definition nota_final :: "pystr \<Rightarrow> pyval" where
  "nota_final resposta_raw =
     (case re_search resposta_raw of
        Some g \<Rightarrow> PyFloat (float_of_numeral g)
      | None \<Rightarrow> PyStr (asc ''N/A''))"

section \<open>Python built-ins the program relies on\<close>

text \<open>
  Exceptions are values: a computation that can raise returns \<open>exn + 'a\<close>, with \<open>Inl\<close>
  for the exception. \<open>StopScript\<close> is what \<open>st.stop()\<close> does to the script.
\<close>

datatype exn =
    JSONDecodeError
  | UnicodeDecodeError
  | UnicodeEncodeError
  | AttributeError
  | TypeError
  | RecursionError
  | StopScript

text \<open>\<open>str\<close> of a natural number and of an integer, in decimal.\<close>

fun str_of_nat :: "nat \<Rightarrow> pystr" where
  "str_of_nat n = (if n < 10 then [0x30 + n] else str_of_nat (n div 10) @ [0x30 + n mod 10])"

definition str_of_int :: "int \<Rightarrow> pystr" where
  "str_of_int i = (if i < 0 then 0x2D # str_of_nat (nat (- i)) else str_of_nat (nat i))"

text \<open>
  \<open>repr\<close> of a float, in the fixed notation Python uses for magnitudes from \<open>1e-4\<close> up
  to \<open>1e16\<close>: the integer part, a point, and the decimals, of which there is at least one
  and at most seventeen.
\<close>

fun frac_digits :: "nat \<Rightarrow> rat \<Rightarrow> pystr" where
  "frac_digits 0 f = []"
| "frac_digits (Suc n) f =
     (if f = 0 then []
      else (let d = nat \<lfloor>10 * f\<rfloor> in (0x30 + d) # frac_digits n (10 * f - of_nat d)))"

definition fixed_repr :: "rat \<Rightarrow> pystr" where
  "fixed_repr x =
     (let ip = nat \<lfloor>x\<rfloor>; f = x - of_nat ip
      in str_of_nat ip @ [0x2E] @ (if f = 0 then [0x30] else frac_digits 17 f))"

definition float_repr :: "pyfloat \<Rightarrow> pystr" where
  "float_repr f =
     (case f of
        Fin x \<Rightarrow> (if x < 0 then 0x2D # fixed_repr (- x) else fixed_repr x)
      | NaN \<Rightarrow> asc ''nan''
      | PosInf \<Rightarrow> asc ''inf''
      | NegInf \<Rightarrow> asc ''-inf'')"

text \<open>
  What a replacement field \<open>{v}\<close> of an f-string puts into the text. For a list or a dict
  that is its \<open>repr\<close>, which depends on Python's table of printable characters; it is
  left to the parameter \<open>rc\<close>.
\<close>

definition py_format :: "(pyval \<Rightarrow> pystr) \<Rightarrow> pyval \<Rightarrow> pystr" where
  "py_format rc v =
     (case v of
        PyNone \<Rightarrow> asc ''None''
      | PyBool b \<Rightarrow> (if b then asc ''True'' else asc ''False'')
      | PyInt i \<Rightarrow> str_of_int i
      | PyFloat f \<Rightarrow> float_repr f
      | PyStr s \<Rightarrow> s
      | PyList xs \<Rightarrow> rc v
      | PyDict kvs \<Rightarrow> rc v)"

text \<open>The truth value of an object, as \<open>if historico_feedbacks\<close> takes it.\<close>

definition py_truthy :: "pyval \<Rightarrow> bool" where
  "py_truthy v =
     (case v of
        PyNone \<Rightarrow> False
      | PyBool b \<Rightarrow> b
      | PyInt i \<Rightarrow> i \<noteq> 0
      | PyFloat f \<Rightarrow> f \<noteq> Fin 0
      | PyStr s \<Rightarrow> s \<noteq> []
      | PyList xs \<Rightarrow> xs \<noteq> []
      | PyDict kvs \<Rightarrow> kvs \<noteq> [])"

text \<open>
  A dict is the list of its items in insertion order, each key once. \<open>dict_get\<close> is
  \<open>d.get(k, default)\<close> and \<open>dict_set\<close> is \<open>d[k] = v\<close>, which keeps the place of a
  key that is there already.
\<close>

definition dict_get :: "(pystr \<times> pyval) list \<Rightarrow> pystr \<Rightarrow> pyval \<Rightarrow> pyval" where
  "dict_get d k dflt = (case map_of d k of Some v \<Rightarrow> v | None \<Rightarrow> dflt)"

fun dict_set :: "(pystr \<times> pyval) list \<Rightarrow> pystr \<Rightarrow> pyval \<Rightarrow> (pystr \<times> pyval) list" where
  "dict_set [] k v = [(k, v)]"
| "dict_set ((k', v') # d) k v = (if k' = k then (k, v) # d else (k', v') # dict_set d k v)"

text \<open>\<open>sep.join(xs)\<close>.\<close>

fun py_join :: "pystr \<Rightarrow> pystr list \<Rightarrow> pystr" where
  "py_join sep [] = []"
| "py_join sep [x] = x"
| "py_join sep (x # y # ys) = x @ sep @ py_join sep (y # ys)"

section \<open>HistorySummarizer: \<open>historico_str\<close>\<close>

text \<open>
  \<^verbatim>\<open>"\n".join([f"--- Feedback {i+1} ---\nData: {item.get('data', 'N/A')}\n..."
               for i, item in enumerate(historico_feedbacks)])
     if historico_feedbacks else "Nenhum hist\<dots>rico de feedback anterior dispon\<dots>vel."\<close>
\<close>

definition historico_block :: "(pyval \<Rightarrow> pystr) \<Rightarrow> nat \<Rightarrow> (pystr \<times> pyval) list \<Rightarrow> pystr" where
  "historico_block rc i item =
     asc ''--- Feedback '' @ str_of_nat (i + 1) @ asc '' ---'' @ [0x0A]
     @ asc ''Data: '' @ py_format rc (dict_get item (asc ''data'') (PyStr (asc ''N/A''))) @ [0x0A]
     @ asc ''Arquivo: ''
     @ py_format rc (dict_get item (asc ''nome_arquivo'') (PyStr (asc ''N/A''))) @ [0x0A]
     @ asc ''Nota: '' @ py_format rc (dict_get item (asc ''nota'') (PyStr (asc ''N/A''))) @ [0x0A]
     @ asc ''Resumo: '' @ py_format rc (dict_get item (asc ''resumo'') (PyStr (asc ''N/A'')))
     @ [0x0A]"

text \<open>
  The list comprehension, from index \<open>i\<close> on. An item that is not a dict has no \<open>get\<close>:
  the comprehension stops there with an \<open>AttributeError\<close>.
\<close>

fun historico_blocks :: "(pyval \<Rightarrow> pystr) \<Rightarrow> nat \<Rightarrow> pyval list \<Rightarrow> exn + pystr list" where
  "historico_blocks rc i [] = Inr []"
| "historico_blocks rc i (PyDict item # items) =
     (case historico_blocks rc (i + 1) items of
        Inl e \<Rightarrow> Inl e
      | Inr bs \<Rightarrow> Inr (historico_block rc i item # bs))"
| "historico_blocks rc i (x # items) = Inl AttributeError"

definition historico_vazio :: pystr where
  "historico_vazio =
     asc ''Nenhum hist'' @ [0xF3] @ asc ''rico de feedback anterior dispon'' @ [0xED]
     @ asc ''vel.''"

text \<open>
  \<open>historico_feedbacks\<close> is whatever \<open>load_feedback_history\<close> returned. Of the values
  that are true and not a list, a dict and a string are iterated, with items that are
  strings (\<open>AttributeError\<close>), and the others cannot be iterated (\<open>TypeError\<close>).
\<close>

definition historico_str :: "(pyval \<Rightarrow> pystr) \<Rightarrow> pyval \<Rightarrow> exn + pystr" where
  "historico_str rc historico_feedbacks =
     (if py_truthy historico_feedbacks
      then (case historico_feedbacks of
              PyList items \<Rightarrow>
                (case historico_blocks rc 0 items of
                   Inl e \<Rightarrow> Inl e
                 | Inr bs \<Rightarrow> Inr (py_join [0x0A] bs))
            | PyDict kvs \<Rightarrow> Inl AttributeError
            | PyStr s \<Rightarrow> Inl AttributeError
            | _ \<Rightarrow> Inl TypeError)
      else Inr historico_vazio)"

section \<open>PromptBuilder: \<open>pergunta\<close>\<close>

text \<open>
  The f-string of the source: three fixed texts with \<open>historico_str\<close> and
  \<open>transcricao\<close> between them.
\<close>

definition prompt_head :: pystr where
  "prompt_head =
    [0xA] @ asc ''            Voc'' @ [0xEA] @ asc '' '' @ [0xE9] @
    asc '' um avaliador profissional e imparcial de entrevistas de emprego'' @
    asc '' (t'' @ [0xE9] @ asc ''cnicas e comportamentais). Sua miss'' @ [0xE3] @
    asc ''o '' @ [0xE9] @
    asc '' fornecer um feedback detalhado e construtivo **focando exclusivamente'' @
    asc '' na performance do candidato (EU)**, com base em trechos reais da'' @
    asc '' entrevista transcrita abaixo.'' @ [0xA, 0xA] @ asc ''            **Instru'' @
    [0xE7, 0xF5] @ asc ''es Cruciais para a An'' @ [0xE1] @ asc ''lise:**'' @ [0xA] @
    asc ''            * A transcri'' @ [0xE7, 0xE3] @ asc ''o pode n'' @ [0xE3] @
    asc ''o ter identifica'' @ [0xE7, 0xE3] @ asc ''o expl'' @ [0xED] @
    asc ''cita de quem fala. Sua tarefa '' @ [0xE9] @ asc '' **inferir quem '' @ [0xE9] @
    asc '' o candidato (EU)** com base nas perguntas t'' @ [0xED] @
    asc ''picas do recrutador e nas respostas que se alinham '' @ [0xE0] @
    asc '' uma apresenta'' @ [0xE7, 0xE3] @ asc ''o pessoal ou profissional.'' @ [0xA] @
    asc ''            * **Priorize a an'' @ [0xE1] @
    asc ''lise das MINHAS falas.** O feedback deve ser sobre a **MINHA comunica'' @
    [0xE7, 0xE3] @ asc ''o, postura, clareza e estrat'' @ [0xE9] @
    asc ''gia de respostas**, e n'' @ [0xE3] @
    asc ''o sobre as perguntas do recrutador.'' @ [0xA] @
    asc ''            * Ao citar trechos, **deixe claro se o trecho '' @ [0xE9] @
    asc '' uma pergunta do recrutador ou uma fala MINHA**, mas use-o apenas'' @
    asc '' para contextualizar a **MINHA resposta ou a MINHA performance**.'' @ [0xA] @
    asc ''            * Se o trecho for longo, cite apenas a parte mais relevante'' @
    asc '' e adicione '' @ [0x22] @ asc ''...'' @ [0x22] @ asc '' se for truncado.'' @
    [0xA] @ asc ''            * Certifique-se de que cada um dos 8 t'' @ [0xF3] @
    asc ''picos solicitados abaixo seja abordado de forma completa e detalhada,'' @
    asc '' com exemplos.'' @ [0xA, 0xA] @
    asc ''            Sua resposta DEVE ser estruturada exatamente com os seguintes'' @
    asc '' t'' @ [0xF3] @ asc ''picos numerados, incluindo o n'' @ [0xFA] @
    asc ''mero e o nome do t'' @ [0xF3] @ asc ''pico em negrito:'' @ [0xA, 0xA] @
    asc ''            1.  **Nota geral de 0 a 10 da MINHA performance.**'' @ [0xA] @
    asc ''            2.  **Meus principais acertos (do candidato)**'' @ [0xA] @
    asc ''            3.  **O que ME prejudicou (erros, falas inseguras, falta'' @
    asc '' de clareza ou foco)**'' @ [0xA] @
    asc ''            4.  **Sugira formas melhores de EU ME expressar**'' @ [0xA] @
    asc ''            5.  **O que reorganizar no MEU roteiro de respostas**'' @ [0xA] @
    asc ''            6.  **Evolu'' @ [0xE7, 0xE3] @ asc ''o com base na mem'' @ [0xF3] @
    asc ''ria de entrevistas anteriores**'' @ [0xA] @
    asc ''            7.  **Dicas mentais e estrat'' @ [0xE9] @
    asc ''gias para melhorar a seguran'' @ [0xE7] @ asc ''a e desempenho**'' @ [0xA] @
    asc ''            8.  **Exemplos pr'' @ [0xE1] @
    asc ''ticos de como responder melhor**'' @ [0xA, 0xA] @
    asc ''            Detalhes para cada t'' @ [0xF3] @ asc ''pico:'' @ [0xA, 0xA] @
    asc ''            **1. Nota geral de 0 a 10 da MINHA performance.**'' @ [0xA] @
    asc ''                - Forne'' @ [0xE7] @ asc ''a uma nota num'' @ [0xE9] @
    asc ''rica clara.'' @ [0xA, 0xA] @
    asc ''            **2. Meus principais acertos (do candidato)**'' @ [0xA] @
    asc ''                - Com trechos espec'' @ [0xED] @ asc ''ficos da transcri'' @
    [0xE7, 0xE3] @ asc ''o que comprovem isso (ex: '' @ [0x22] @
    asc ''Quando o candidato disse '' @ [0x27] @ asc ''...'' @ [0x27] @
    asc '', demonstrou clareza/confian'' @ [0xE7] @ asc ''a/...'' @ [0x22] @ asc '').'' @
    [0xA, 0xA] @
    asc ''            **3. O que ME prejudicou (erros, falas inseguras, falta'' @
    asc '' de clareza ou foco)**'' @ [0xA] @
    asc ''                - Com trechos reais **DAS MINHAS falas** que demonstrem'' @
    asc '' os pontos fracos.'' @ [0xA, 0xA] @
    asc ''            **4. Sugira formas melhores de EU ME expressar**'' @ [0xA] @
    asc ''                - Reescreva partes ruins **DAS MINHAS falas** de'' @
    asc '' forma ideal, mostrando como eu poderia ter formulado a resposta.'' @
    [0xA, 0xA] @ asc ''            **5. O que reorganizar no MEU roteiro de respostas**'' @
    [0xA] @ asc ''                - Temas que deveriam vir antes, respostas que se'' @
    asc '' alongam sem necessidade etc.'' @ [0xA, 0xA] @ asc ''            **6. Evolu'' @
    [0xE7, 0xE3] @ asc ''o com base na mem'' @ [0xF3] @
    asc ''ria de entrevistas anteriores**'' @ [0xA] @
    asc ''                - Use o seguinte hist'' @ [0xF3] @
    asc ''rico de feedbacks para a an'' @ [0xE1] @ asc ''lise de evolu'' @ [0xE7, 0xE3] @
    asc ''o, regress'' @ [0xE3] @ asc ''o ou estagna'' @ [0xE7, 0xE3] @
    asc ''o em aspectos espec'' @ [0xED] @ asc ''ficos **DA MINHA performance**:'' @
    [0xA] @ asc ''                Hist'' @ [0xF3] @ asc ''rico de Feedbacks Anteriores:'' @
    [0xA] @ asc ''                '' @ [0x22, 0x22, 0x22, 0xA] @ asc ''                ''"

definition prompt_middle :: pystr where
  "prompt_middle =
    [0xA] @ asc ''                '' @ [0x22, 0x22, 0x22, 0xA] @
    asc ''                - Se o hist'' @ [0xF3] @ asc ''rico estiver vazio ou n'' @
    [0xE3] @ asc ''o houver dados relevantes, indique isso e ofere'' @ [0xE7] @
    asc ''a dicas gerais para a pr'' @ [0xF3] @ asc ''xima.'' @ [0xA, 0xA] @
    asc ''            **7. Dicas mentais e estrat'' @ [0xE9] @
    asc ''gias para melhorar a seguran'' @ [0xE7] @ asc ''a e desempenho**'' @ [0xA] @
    asc ''                - Orienta'' @ [0xE7, 0xF5] @ asc ''es pr'' @ [0xE1] @
    asc ''ticas e acion'' @ [0xE1] @ asc ''veis.'' @ [0xA, 0xA] @
    asc ''            **8. Exemplos pr'' @ [0xE1] @
    asc ''ticos de como responder melhor**'' @ [0xA] @ asc ''                - D'' @
    [0xEA] @ asc '' exemplos pr'' @ [0xE1] @
    asc ''ticos de como EU poderia responder melhor, com trechos simulados'' @
    asc '' que eu poderia usar no lugar do que foi dito.'' @ [0xA, 0xA] @
    asc ''            '' @ [0x26A0, 0xFE0F] @ asc '' **IMPORTANTE:**'' @ [0xA] @
    asc ''            -   Seja direto, detalhado e espec'' @ [0xED] @ asc ''fico.'' @
    [0xA] @ asc ''            -   N'' @ [0xE3] @
    asc ''o resuma demais. Justifique com exemplos reais sempre que poss'' @ [0xED] @
    asc ''vel, **priorizando cita'' @ [0xE7, 0xF5] @ asc ''es das MINHAS falas**.'' @
    [0xA] @ asc ''            -   **Fo'' @ [0xE7] @
    asc ''o EXCLUSIVAMENTE na MINHA qualidade de comunica'' @ [0xE7, 0xE3] @
    asc ''o, clareza, postura e estrat'' @ [0xE9] @ asc ''gia como candidato.**'' @ [0xA] @
    asc ''            -   Lembre-se: o objetivo '' @ [0xE9] @ asc '' a MINHA evolu'' @
    [0xE7, 0xE3] @ asc ''o constante.'' @ [0xA, 0xA] @ asc ''            Transcri'' @
    [0xE7, 0xE3] @ asc ''o da entrevista:'' @ [0xA] @ asc ''            '' @
    [0x22, 0x22, 0x22, 0xA] @ asc ''            ''"

definition prompt_tail :: pystr where
  "prompt_tail =
    [0xA] @ asc ''            '' @ [0x22, 0x22, 0x22, 0xA] @ asc ''            ''"

definition pergunta :: "pystr \<Rightarrow> pystr \<Rightarrow> pystr" where
  "pergunta historico transcricao =
     prompt_head @ historico @ prompt_middle @ transcricao @ prompt_tail"

section \<open>The record of an evaluation: \<open>new_feedback_entry\<close>\<close>

text \<open>\<^verbatim>\<open>resposta_raw[:500] + "..." if len(resposta_raw) > 500 else resposta_raw\<close>\<close>

definition resumo_of :: "pystr \<Rightarrow> pystr" where
  "resumo_of resposta_raw =
     (if length resposta_raw > 500 then take 500 resposta_raw @ asc ''...''
      else resposta_raw)"

text \<open>
  \<open>agora\<close> is \<open>datetime.now().strftime("%Y-%m-%d %H:%M:%S")\<close> and \<open>nome\<close> is
  \<open>uploaded_file.name\<close>.
\<close>

definition new_feedback_entry ::
    "pystr \<Rightarrow> pystr \<Rightarrow> pystr \<Rightarrow> (pystr \<times> pyval) list" where
  "new_feedback_entry agora nome resposta_raw =
     [(asc ''data'', PyStr agora),
      (asc ''nome_arquivo'', PyStr nome),
      (asc ''nota'', nota_final resposta_raw),
      (asc ''resumo'', PyStr (resumo_of resposta_raw)),
      (asc ''feedback_completo'', PyStr resposta_raw)]"

section \<open>HistoryStore: the history file and its JSON text\<close>

subsection \<open>\<open>json.dump(history, f, ensure_ascii=False, indent=4)\<close>\<close>

text \<open>
  The encoder of Python 3.11. A string is written between double quotes with the quote,
  the backslash and the control characters escaped; with \<open>ensure_ascii=False\<close> every
  other character is written as it is.
\<close>

definition hex_digit :: "nat \<Rightarrow> nat" where
  "hex_digit n = (if n < 10 then 0x30 + n else 0x57 + n)"

definition escape_char :: "nat \<Rightarrow> pystr" where
  "escape_char c =
     (if c = 0x22 then [0x5C, 0x22]
      else if c = 0x5C then [0x5C, 0x5C]
      else if c = 0x08 then [0x5C, 0x62]
      else if c = 0x0C then [0x5C, 0x66]
      else if c = 0x0A then [0x5C, 0x6E]
      else if c = 0x0D then [0x5C, 0x72]
      else if c = 0x09 then [0x5C, 0x74]
      else if c < 0x20 then [0x5C, 0x75, 0x30, 0x30, hex_digit (c div 16), hex_digit (c mod 16)]
      else [c])"

definition encode_basestring :: "pystr \<Rightarrow> pystr" where
  "encode_basestring s = 0x22 # concat (map escape_char s) @ [0x22]"

definition floatstr :: "pyfloat \<Rightarrow> pystr" where
  "floatstr f =
     (case f of
        Fin x \<Rightarrow> float_repr (Fin x)
      | NaN \<Rightarrow> asc ''NaN''
      | PosInf \<Rightarrow> asc ''Infinity''
      | NegInf \<Rightarrow> asc ''-Infinity'')"

text \<open>The values the encoder writes in one piece; a list or a dict is not one of them.\<close>

definition encode_atom :: "pyval \<Rightarrow> pystr option" where
  "encode_atom v =
     (case v of
        PyStr s \<Rightarrow> Some (encode_basestring s)
      | PyNone \<Rightarrow> Some (asc ''null'')
      | PyBool b \<Rightarrow> Some (if b then asc ''true'' else asc ''false'')
      | PyInt i \<Rightarrow> Some (str_of_int i)
      | PyFloat f \<Rightarrow> Some (floatstr f)
      | PyList xs \<Rightarrow> None
      | PyDict kvs \<Rightarrow> None)"

definition newline_indent :: "nat \<Rightarrow> pystr" where
  "newline_indent level = 0x0A # replicate (4 * level) 0x20"

text \<open>
  \<open>iterencode\<close> yields the text in chunks, which \<open>json.dump\<close> writes one by one. In
  \<open>iterencode_list\<close> the level is that of the items, and \<open>buf\<close> is what goes before the
  next item: the bracket and the indentation at first, the separator afterwards.
\<close>

function iterencode :: "nat \<Rightarrow> pyval \<Rightarrow> pystr list"
  and iterencode_list :: "nat \<Rightarrow> pystr \<Rightarrow> pyval list \<Rightarrow> pystr list"
  and iterencode_dict :: "nat \<Rightarrow> bool \<Rightarrow> (pystr \<times> pyval) list \<Rightarrow> pystr list"
where
  "iterencode level v =
     (case v of
        PyList xs \<Rightarrow>
          (if xs = [] then [asc ''[]'']
           else iterencode_list (level + 1) (0x5B # newline_indent (level + 1)) xs)
      | PyDict kvs \<Rightarrow>
          (if kvs = [] then [asc ''{}'']
           else [0x7B] # newline_indent (level + 1) # iterencode_dict (level + 1) True kvs)
      | _ \<Rightarrow> [the (encode_atom v)])"
| "iterencode_list level buf [] = [newline_indent (level - 1), [0x5D]]"
| "iterencode_list level buf (x # xs) =
     (case encode_atom x of
        Some a \<Rightarrow> [buf @ a]
      | None \<Rightarrow> buf # iterencode level x)
     @ iterencode_list level (0x2C # newline_indent level) xs"
| "iterencode_dict level first [] = [newline_indent (level - 1), [0x7D]]"
| "iterencode_dict level first (kv # kvs) =
     (if first then [] else [0x2C # newline_indent level])
     @ [encode_basestring (fst kv), asc '': '']
     @ (case encode_atom (snd kv) of
          Some a \<Rightarrow> [a]
        | None \<Rightarrow> iterencode level (snd kv))
     @ iterencode_dict level False kvs"
  by pat_completeness auto
termination
  by (relation "measure (\<lambda>a. case a of
        Inl (l, v) \<Rightarrow> 2 * size v + 1
      | Inr (Inl (l, b, xs)) \<Rightarrow> 2 * size_list size xs
      | Inr (Inr (l, f, kvs)) \<Rightarrow> 2 * size_list (size_prod (\<lambda>k. 0) size) kvs)")
    (auto simp: less_Suc_eq_le)

subsection \<open>The file\<close>

text \<open>
  The file \<open>feedback_history.json\<close> is opened as UTF-8 text. Its state is the text it
  holds; \<open>Undecodable\<close> is a file whose bytes are not UTF-8, and \<open>Missing\<close> no file.
  The codec itself is not modelled: a text without surrogates is taken to come back from
  the file as it was written.
\<close>

datatype history_file = Missing | Undecodable | Text pystr

definition is_surrogate :: "nat \<Rightarrow> bool" where
  "is_surrogate c = (0xD800 \<le> c \<and> c \<le> 0xDFFF)"

text \<open>
  \<open>f.write(chunk)\<close> for each chunk in turn. A chunk with a surrogate cannot be encoded:
  the write raises, and the file keeps the chunks written before.
\<close>

fun write_chunks :: "pystr \<Rightarrow> pystr list \<Rightarrow> pystr \<times> exn option" where
  "write_chunks written [] = (written, None)"
| "write_chunks written (c # cs) =
     (if \<exists>x \<in> set c. is_surrogate x then (written, Some UnicodeEncodeError)
      else write_chunks (written @ c) cs)"

text \<open>\<open>save_feedback_history\<close>: mode \<open>"w"\<close> empties the file, then the chunks are written.\<close>

definition save_feedback_history :: "pyval \<Rightarrow> history_file \<times> (exn + unit)" where
  "save_feedback_history history =
     (case write_chunks [] (iterencode 0 history) of
        (written, None) \<Rightarrow> (Text written, Inr ())
      | (written, Some e) \<Rightarrow> (Text written, Inl e))"

text \<open>Reading in text mode turns \<open>\r\n\<close> and \<open>\r\<close> into \<open>\n\<close>.\<close>

fun universal_newlines :: "pystr \<Rightarrow> pystr" where
  "universal_newlines [] = []"
| "universal_newlines [c] = (if c = 0x0D then [0x0A] else [c])"
| "universal_newlines (c # d # ds) =
     (if c = 0x0D \<and> d = 0x0A then 0x0A # universal_newlines ds
      else if c = 0x0D then 0x0A # universal_newlines (d # ds)
      else c # universal_newlines (d # ds))"

subsection \<open>\<open>json.load(f)\<close>\<close>

text \<open>
  The decoder of CPython 3.11 (its accelerated scanner). Every failure of it that is
  modelled is a \<open>JSONDecodeError\<close>; the limits of the interpreter (nesting depth, digits
  of an integer) are not modelled.
\<close>

definition is_json_ws :: "nat \<Rightarrow> bool" where
  "is_json_ws c = (c = 0x20 \<or> c = 0x09 \<or> c = 0x0A \<or> c = 0x0D)"

definition skip_ws :: "pystr \<Rightarrow> pystr" where
  "skip_ws s = dropWhile is_json_ws s"

definition is_ascii_digit :: "nat \<Rightarrow> bool" where
  "is_ascii_digit c = (0x30 \<le> c \<and> c \<le> 0x39)"

definition nat_of_digits :: "pystr \<Rightarrow> nat" where
  "nat_of_digits ds = foldl (\<lambda>n c. 10 * n + (c - 0x30)) 0 ds"

definition hex_value :: "nat \<Rightarrow> nat option" where
  "hex_value c =
     (if 0x30 \<le> c \<and> c \<le> 0x39 then Some (c - 0x30)
      else if 0x61 \<le> c \<and> c \<le> 0x66 then Some (c - 0x57)
      else if 0x41 \<le> c \<and> c \<le> 0x46 then Some (c - 0x37)
      else None)"

text \<open>The four hexadecimal digits after \<open>\u\<close>.\<close>

definition decode_uXXXX :: "pystr \<Rightarrow> nat option" where
  "decode_uXXXX s =
     (case map hex_value (take 4 s) of
        [Some a, Some b, Some c, Some d] \<Rightarrow> Some (((a * 16 + b) * 16 + c) * 16 + d)
      | _ \<Rightarrow> None)"

definition unescape :: "nat \<Rightarrow> nat option" where
  "unescape e =
     (if e = 0x22 then Some 0x22
      else if e = 0x5C then Some 0x5C
      else if e = 0x2F then Some 0x2F
      else if e = 0x62 then Some 0x08
      else if e = 0x66 then Some 0x0C
      else if e = 0x6E then Some 0x0A
      else if e = 0x72 then Some 0x0D
      else if e = 0x74 then Some 0x09
      else None)"

definition cons_result :: "nat \<Rightarrow> (pystr \<times> pystr) option \<Rightarrow> (pystr \<times> pystr) option" where
  "cons_result c res = (case res of None \<Rightarrow> None | Some (t, r) \<Rightarrow> Some (c # t, r))"

text \<open>
  \<open>scanstring\<close>, from the character after the opening quote: the string and the text
  after its closing quote. Two \<open>\u\<close> escapes that are a high and a low surrogate make
  one character.
\<close>

function scanstring :: "pystr \<Rightarrow> (pystr \<times> pystr) option" where
  "scanstring [] = None"
| "scanstring (c # cs) =
     (if c = 0x22 then Some ([], cs)
      else if c = 0x5C then
        (case cs of
           [] \<Rightarrow> None
         | e # r \<Rightarrow>
             if e = 0x75 then
               (case decode_uXXXX r of
                  None \<Rightarrow> None
                | Some uni \<Rightarrow>
                    if 0xD800 \<le> uni \<and> uni \<le> 0xDBFF \<and> take 2 (drop 4 r) = [0x5C, 0x75]
                    then (case decode_uXXXX (drop 6 r) of
                            None \<Rightarrow> None
                          | Some uni2 \<Rightarrow>
                              if 0xDC00 \<le> uni2 \<and> uni2 \<le> 0xDFFF
                              then cons_result
                                     (0x10000 + (uni - 0xD800) * 1024 + (uni2 - 0xDC00))
                                     (scanstring (drop 10 r))
                              else cons_result uni (scanstring (drop 4 r)))
                    else cons_result uni (scanstring (drop 4 r)))
             else (case unescape e of
                     None \<Rightarrow> None
                   | Some ch \<Rightarrow> cons_result ch (scanstring r)))
      else if c < 0x20 then None
      else cons_result c (scanstring cs))"
  by pat_completeness auto
termination
  by (relation "measure length") auto

text \<open>
  A number: an optional minus, \<open>0\<close> or a digit from 1 to 9 with more digits, then a point
  with digits, then an exponent with digits, each of the two only when complete. With a
  fraction or an exponent it is a float, otherwise an int.
\<close>

definition scan_number :: "pystr \<Rightarrow> (pyval \<times> pystr) option" where
  "scan_number s =
     (let neg = (s \<noteq> [] \<and> hd s = 0x2D);
          s1 = (if neg then tl s else s)
      in if s1 = [] \<or> \<not> is_ascii_digit (hd s1) then None
         else
           (let ds = (if hd s1 = 0x30 then [0x30] else takeWhile is_ascii_digit s1);
                s2 = drop (length ds) s1;
                fs = (if s2 \<noteq> [] \<and> hd s2 = 0x2E then takeWhile is_ascii_digit (tl s2) else []);
                s3 = (if fs = [] then s2 else drop (1 + length fs) s2);
                has_e = (s3 \<noteq> [] \<and> (hd s3 = 0x65 \<or> hd s3 = 0x45));
                s4 = (if has_e \<and> tl s3 \<noteq> [] \<and> (hd (tl s3) = 0x2B \<or> hd (tl s3) = 0x2D)
                      then tl (tl s3) else tl s3);
                es = (if has_e then takeWhile is_ascii_digit s4 else []);
                eneg = (has_e \<and> tl s3 \<noteq> [] \<and> hd (tl s3) = 0x2D);
                rest = (if es = [] then s3 else drop (length es) s4);
                m = of_nat (nat_of_digits ds) + of_nat (nat_of_digits fs) / 10 ^ length fs;
                x = (if eneg then m / 10 ^ nat_of_digits es else m * 10 ^ nat_of_digits es)
            in if fs = [] \<and> es = []
               then Some (PyInt (if neg then - int (nat_of_digits ds) else int (nat_of_digits ds)),
                          rest)
               else Some (PyFloat (Fin (if neg then - x else x)), rest)))"

text \<open>
  The items of a JSON object make a dict one assignment after the other, so of two
  items with the same key the later value stands at the earlier place.
\<close>

definition dict_of_items :: "(pystr \<times> pyval) list \<Rightarrow> (pystr \<times> pyval) list" where
  "dict_of_items kvs = foldl (\<lambda>d kv. dict_set d (fst kv) (snd kv)) [] kvs"

text \<open>
  The recursion of the scanner is bounded by a counter, so that it is a total function;
  \<open>loads\<close> starts it with a bound that is never reached.
\<close>

datatype 'a parse = Parsed 'a pystr | Malformed | OutOfFuel

fun parse_value :: "nat \<Rightarrow> pystr \<Rightarrow> pyval parse"
  and parse_array_items :: "nat \<Rightarrow> pystr \<Rightarrow> pyval list parse"
  and parse_object_items :: "nat \<Rightarrow> pystr \<Rightarrow> (pystr \<times> pyval) list parse"
where
  "parse_value 0 s = OutOfFuel"
| "parse_value (Suc n) s =
     (case s of
        [] \<Rightarrow> Malformed
      | c # cs \<Rightarrow>
          if c = 0x22 then
            (case scanstring cs of
               None \<Rightarrow> Malformed
             | Some (t, r) \<Rightarrow> Parsed (PyStr t) r)
          else if c = 0x7B then
            (case skip_ws cs of
               [] \<Rightarrow> Malformed
             | d # r \<Rightarrow>
                 if d = 0x7D then Parsed (PyDict []) r
                 else (case parse_object_items n (d # r) of
                         Parsed kvs r' \<Rightarrow> Parsed (PyDict (dict_of_items kvs)) r'
                       | Malformed \<Rightarrow> Malformed
                       | OutOfFuel \<Rightarrow> OutOfFuel))
          else if c = 0x5B then
            (case skip_ws cs of
               [] \<Rightarrow> Malformed
             | d # r \<Rightarrow>
                 if d = 0x5D then Parsed (PyList []) r
                 else (case parse_array_items n (d # r) of
                         Parsed vs r' \<Rightarrow> Parsed (PyList vs) r'
                       | Malformed \<Rightarrow> Malformed
                       | OutOfFuel \<Rightarrow> OutOfFuel))
          else if take 4 s = asc ''null'' then Parsed PyNone (drop 4 s)
          else if take 4 s = asc ''true'' then Parsed (PyBool True) (drop 4 s)
          else if take 5 s = asc ''false'' then Parsed (PyBool False) (drop 5 s)
          else if take 3 s = asc ''NaN'' then Parsed (PyFloat NaN) (drop 3 s)
          else if take 8 s = asc ''Infinity'' then Parsed (PyFloat PosInf) (drop 8 s)
          else if take 9 s = asc ''-Infinity'' then Parsed (PyFloat NegInf) (drop 9 s)
          else (case scan_number s of
                  None \<Rightarrow> Malformed
                | Some (v, r) \<Rightarrow> Parsed v r))"
| "parse_array_items 0 s = OutOfFuel"
| "parse_array_items (Suc n) s =
     (case parse_value n s of
        Parsed v r \<Rightarrow>
          (case skip_ws r of
             [] \<Rightarrow> Malformed
           | d # r' \<Rightarrow>
               if d = 0x5D then Parsed [v] r'
               else if d = 0x2C then
                 (case parse_array_items n (skip_ws r') of
                    Parsed vs r'' \<Rightarrow> Parsed (v # vs) r''
                  | Malformed \<Rightarrow> Malformed
                  | OutOfFuel \<Rightarrow> OutOfFuel)
               else Malformed)
      | Malformed \<Rightarrow> Malformed
      | OutOfFuel \<Rightarrow> OutOfFuel)"
| "parse_object_items 0 s = OutOfFuel"
| "parse_object_items (Suc n) s =
     (case s of
        [] \<Rightarrow> Malformed
      | q # s1 \<Rightarrow>
          if q \<noteq> 0x22 then Malformed
          else
            (case scanstring s1 of
               None \<Rightarrow> Malformed
             | Some (k, r) \<Rightarrow>
                 (case skip_ws r of
                    [] \<Rightarrow> Malformed
                  | col # r1 \<Rightarrow>
                      if col \<noteq> 0x3A then Malformed
                      else
                        (case parse_value n (skip_ws r1) of
                           Parsed v r2 \<Rightarrow>
                             (case skip_ws r2 of
                                [] \<Rightarrow> Malformed
                              | d # r3 \<Rightarrow>
                                  if d = 0x7D then Parsed [(k, v)] r3
                                  else if d = 0x2C then
                                    (case parse_object_items n (skip_ws r3) of
                                       Parsed kvs r4 \<Rightarrow> Parsed ((k, v) # kvs) r4
                                     | Malformed \<Rightarrow> Malformed
                                     | OutOfFuel \<Rightarrow> OutOfFuel)
                                  else Malformed)
                         | Malformed \<Rightarrow> Malformed
                         | OutOfFuel \<Rightarrow> OutOfFuel))))"

text \<open>
  \<open>json.loads\<close>: no byte order mark at the start, one value with white space around it,
  and nothing else.
\<close>

definition loads :: "pystr \<Rightarrow> exn + pyval" where
  "loads s =
     (if s \<noteq> [] \<and> hd s = 0xFEFF then Inl JSONDecodeError
      else (case parse_value (2 * length s + 2) (skip_ws s) of
              Parsed v r \<Rightarrow> if skip_ws r = [] then Inr v else Inl JSONDecodeError
            | Malformed \<Rightarrow> Inl JSONDecodeError
            | OutOfFuel \<Rightarrow> Inl RecursionError))"

text \<open>
  \<open>load_feedback_history\<close>: the empty list when there is no file and when the decoder
  raises \<open>JSONDecodeError\<close> (with a warning on the page, which is not modelled); any
  other exception goes on to the caller.
\<close>

definition load_feedback_history :: "history_file \<Rightarrow> exn + pyval" where
  "load_feedback_history f =
     (case f of
        Missing \<Rightarrow> Inr (PyList [])
      | Undecodable \<Rightarrow> Inl UnicodeDecodeError
      | Text t \<Rightarrow>
          (case loads (universal_newlines t) of
             Inl e \<Rightarrow> if e = JSONDecodeError then Inr (PyList []) else Inl e
           | Inr v \<Rightarrow> Inr v))"

section \<open>EvaluationPipeline: the handler of the button \<open>Gerar Feedback\<close>\<close>

text \<open>
  What the handler takes from outside: the API key of the environment, the model call
  \<open>current_assistente.predict\<close>, which returns the response or raises, the time of the
  clock as \<open>strftime\<close> formats it, and Python's \<open>repr\<close> of lists and dicts.
\<close>

record env =
  api_key :: "pystr option"
  predict :: "pystr \<Rightarrow> exn + pystr"
  agora :: pystr
  repr_container :: "pyval \<Rightarrow> pystr"

text \<open>
  The handler, on the file as it is, the transcript and the name of the uploaded file.
  It returns the file as it is afterwards and the response shown on the page, or the
  exception that ended the run.
\<close>

definition gerar_feedback :: "env \<Rightarrow> history_file \<Rightarrow> pystr \<Rightarrow> pystr \<Rightarrow> history_file \<times> (exn + pystr)" where
  "gerar_feedback E disk transcricao nome =
     (if api_key E = None \<or> api_key E = Some [] then (disk, Inl StopScript)
      else
        (case load_feedback_history disk of
           Inl e \<Rightarrow> (disk, Inl e)
         | Inr historico_feedbacks \<Rightarrow>
             (case historico_str (repr_container E) historico_feedbacks of
                Inl e \<Rightarrow> (disk, Inl e)
              | Inr historico \<Rightarrow>
                  (case predict E (pergunta historico transcricao) of
                     Inl e \<Rightarrow> (disk, Inl e)
                   | Inr resposta_raw \<Rightarrow>
                       (case historico_feedbacks of
                          PyList items \<Rightarrow>
                            (case save_feedback_history
                                    (PyList (items @
                                       [PyDict (new_feedback_entry (agora E) nome resposta_raw)])) of
                               (disk', Inl e) \<Rightarrow> (disk', Inl e)
                             | (disk', Inr u) \<Rightarrow> (disk', Inr resposta_raw))
                        | _ \<Rightarrow> (disk, Inl AttributeError))))))"

section \<open>Properties of the score extraction\<close>

lemmas eval_defs =
  asc_def decimal_value_def decimal_zeros_def is_digit_def is_space_def whitespace_chars_def
  ignorecase_extra_def ignorecase_variants_def nota_label_def match_number_def
  match_colon_spaces_number_def match_here_def digits_value_def float_of_numeral_def
  nota_final_def ci_equal_def has_digit_def

lemma decimal_value_less_10: "decimal_value c = Some v \<Longrightarrow> v < 10"
  by (auto simp: decimal_value_def find_Some_iff split: option.splits)

lemma point_is_no_digit: "\<not> is_digit 0x2E"
  by (simp add: is_digit_def decimal_value_def decimal_zeros_def)

lemma takeWhile_no_digit: "\<not> has_digit s \<Longrightarrow> takeWhile is_digit s = []"
  by (cases s) (auto simp: has_digit_def)

lemma match_number_no_digit: "\<not> has_digit s \<Longrightarrow> match_number s = None"
  by (simp add: match_number_def takeWhile_no_digit)

lemma match_number_head:
  "\<not> has_digit cs \<Longrightarrow> match_number (c # cs) = (if is_digit c then Some [c] else None)"
proof (cases cs)
  case Nil
  then show ?thesis by (simp add: match_number_def)
next
  case (Cons x xs)
  assume nd: "\<not> has_digit cs"
  with Cons have "\<not> is_digit x" and "\<not> has_digit xs"
    by (auto simp: has_digit_def)
  with Cons show ?thesis
    by (simp add: match_number_def takeWhile_no_digit)
qed

lemma match_spaces_number_no_digit: "\<not> has_digit s \<Longrightarrow> match_spaces_number s = None"
  by (induction s) (auto simp: match_number_no_digit has_digit_def)

lemma match_spaces_number_head:
  "\<not> has_digit cs \<Longrightarrow> match_spaces_number (c # cs) = (if is_digit c then Some [c] else None)"
  by (simp add: match_spaces_number_no_digit match_number_head match_number_no_digit)

lemma match_colon_spaces_number_no_digit:
  "\<not> has_digit s \<Longrightarrow> match_colon_spaces_number s = None"
proof (cases s)
  case Nil
  then show ?thesis
    by (simp add: match_colon_spaces_number_def match_number_no_digit has_digit_def)
next
  case (Cons c cs)
  assume nd: "\<not> has_digit s"
  with Cons have "\<not> has_digit cs" by (simp add: has_digit_def)
  then have "match_spaces_number cs = None"
    by (rule match_spaces_number_no_digit)
  moreover from nd have "match_spaces_number s = None"
    by (rule match_spaces_number_no_digit)
  ultimately show ?thesis
    using Cons by (auto simp add: match_colon_spaces_number_def simp del: match_spaces_number.simps)
qed

lemma match_colon_spaces_number_head:
  "\<not> has_digit cs \<Longrightarrow>
   match_colon_spaces_number (c # cs) = (if is_digit c then Some [c] else None)"
  by (simp add: match_colon_spaces_number_def match_spaces_number_no_digit
      match_spaces_number_head del: match_spaces_number.simps)

lemma match_dotall_tail_last_digit:
  "match_dotall_tail s =
     (if has_digit s then Some [last (filter is_digit s)] else None)"
proof (induction s)
  case Nil
  then show ?case by (simp add: has_digit_def match_colon_spaces_number_no_digit)
next
  case (Cons c cs)
  show ?case
  proof (cases "has_digit cs")
    case True
    then have "filter is_digit cs \<noteq> []"
      by (auto simp: has_digit_def filter_empty_conv)
    with True Cons show ?thesis by (simp add: has_digit_def)
  next
    case False
    then have "filter is_digit cs = []"
      by (auto simp: has_digit_def filter_empty_conv)
    with False Cons show ?thesis
      by (simp add: match_colon_spaces_number_head has_digit_def)
  qed
qed

lemma match_literal_iff:
  "match_literal ps s = Some r \<longleftrightarrow> (\<exists>l. s = l @ r \<and> ci_equal ps l)"
proof (induction ps s rule: match_literal.induct)
  case (1 s)
  then show ?case by (simp add: ci_equal_def)
next
  case (2 p ps)
  then show ?case by (simp add: ci_equal_def list_all2_Cons1)
next
  case (3 p ps c cs)
  then show ?case by (auto simp: ci_equal_def list_all2_Cons1 Cons_eq_append_conv)
qed

lemma ci_equal_length: "ci_equal ps l \<Longrightarrow> length l = length ps"
  by (simp add: ci_equal_def list_all2_lengthD)

lemma match_here_iff:
  "match_here s = Some g \<longleftrightarrow>
     (\<exists>l r. s = l @ r \<and> ci_equal nota_label l \<and> has_digit r \<and> g = [last (filter is_digit r)])"
proof (cases "match_literal nota_label s")
  case None
  then have "\<not> (\<exists>l r. s = l @ r \<and> ci_equal nota_label l)"
    using match_literal_iff [of nota_label s] by auto
  with None show ?thesis by (auto simp: match_here_def)
next
  case (Some r)
  then obtain l where l: "s = l @ r" "ci_equal nota_label l"
    using match_literal_iff [of nota_label s r] by auto
  have uniq: "r' = r" if "s = l' @ r'" "ci_equal nota_label l'" for l' r'
    using that l by (auto dest!: ci_equal_length simp: append_eq_append_conv)
  show ?thesis
  proof
    assume "match_here s = Some g"
    with Some l show "\<exists>l r. s = l @ r \<and> ci_equal nota_label l \<and> has_digit r \<and> g = [last (filter is_digit r)]"
      by (auto simp: match_here_def match_dotall_tail_last_digit split: if_splits)
  next
    assume "\<exists>l r. s = l @ r \<and> ci_equal nota_label l \<and> has_digit r \<and> g = [last (filter is_digit r)]"
    then obtain l' r' where "s = l' @ r'" "ci_equal nota_label l'" "has_digit r'"
      "g = [last (filter is_digit r')]" by blast
    with uniq [of l' r'] Some show "match_here s = Some g"
      by (simp add: match_here_def match_dotall_tail_last_digit)
  qed
qed

lemma last_filter_append:
  "has_digit r \<Longrightarrow> last (filter is_digit (l @ r)) = last (filter is_digit r)"
  by (auto simp: has_digit_def filter_empty_conv)

lemma re_search_Some:
  "re_search s = Some g \<Longrightarrow> has_digit s \<and> g = [last (filter is_digit s)]"
proof (induction s)
  case Nil
  then show ?case by (auto simp: match_here_iff has_digit_def)
next
  case (Cons c cs)
  show ?case
  proof (cases "match_here (c # cs)")
    case None
    with Cons.prems have "re_search cs = Some g" by simp
    then have "has_digit cs \<and> g = [last (filter is_digit cs)]" by (rule Cons.IH)
    then show ?thesis
      using last_filter_append [of cs "[c]"] by (auto simp: has_digit_def)
  next
    case (Some g')
    with Cons.prems have "match_here (c # cs) = Some g" by simp
    then obtain l r where "c # cs = l @ r" "has_digit r" "g = [last (filter is_digit r)]"
      unfolding match_here_iff by blast
    then show ?thesis
      using last_filter_append [of r l] by (auto simp: has_digit_def)
  qed
qed

lemma re_search_finds:
  "ci_equal nota_label l \<Longrightarrow> has_digit r \<Longrightarrow> re_search (pre @ l @ r) \<noteq> None"
proof (induction pre)
  case Nil
  then have "match_here (l @ r) \<noteq> None"
    using match_here_iff [of "l @ r"] by blast
  then show ?case by (cases "l @ r") (auto split: option.splits)
next
  case (Cons c pre)
  then show ?case by (auto split: option.splits)
qed

lemma re_search_None:
  assumes "\<And>pre l r. s = pre @ l @ r \<Longrightarrow> ci_equal nota_label l \<Longrightarrow> \<not> has_digit r"
  shows "re_search s = None"
  using assms
proof (induction s)
  case Nil
  have "match_here [] = None"
  proof (cases "match_here []")
    case (Some g)
    then show ?thesis using Nil [of "[]"] unfolding match_here_iff by auto
  qed simp
  then show ?case by simp
next
  case (Cons c cs)
  have "match_here (c # cs) = None"
  proof (cases "match_here (c # cs)")
    case (Some g)
    then show ?thesis using Cons.prems [of "[]"] unfolding match_here_iff by auto
  qed simp
  moreover have "re_search cs = None"
  proof (rule Cons.IH)
    fix pre l r
    assume "cs = pre @ l @ r" "ci_equal nota_label l"
    then show "\<not> has_digit r" using Cons.prems [of "c # pre" l r] by simp
  qed
  ultimately show ?case by simp
qed

lemma float_of_digit:
  assumes "decimal_value d = Some v"
  shows "float_of_numeral [d] = Fin (of_nat v)"
proof -
  from assms have "is_digit d" by (simp add: is_digit_def)
  with point_is_no_digit have "d \<noteq> 0x2E" by auto
  with assms show ?thesis by (simp add: float_of_numeral_def digits_value_def)
qed


text \<open>
  Whenever the pattern matches at all, group 1 is the last digit of the whole text: the
  greedy \<open>.*\<close> runs to the end of the text and gives back only what it must.
\<close>

lemma nota_final_last_digit:
  assumes "re_search s \<noteq> None"
  shows "\<exists>d v. d = last (filter is_digit s) \<and> decimal_value d = Some v \<and> v < 10 \<and>
           nota_final s = PyFloat (Fin (of_nat v))"
proof -
  from assms obtain g where g: "re_search s = Some g" by auto
  then have hd: "has_digit s" and gl: "g = [last (filter is_digit s)]"
    using re_search_Some by auto
  from hd have "filter is_digit s \<noteq> []"
    by (auto simp: has_digit_def filter_empty_conv)
  then have "last (filter is_digit s) \<in> set (filter is_digit s)" by (rule last_in_set)
  then have "is_digit (last (filter is_digit s))" by simp
  then obtain v where v: "decimal_value (last (filter is_digit s)) = Some v"
    by (auto simp: is_digit_def)
  with g gl have "nota_final s = PyFloat (Fin (of_nat v))"
    by (simp add: nota_final_def float_of_digit)
  with v decimal_value_less_10 [OF v] show ?thesis by blast
qed

lemma no_digit_subset: "\<not> has_digit t \<Longrightarrow> set r \<subseteq> set t \<Longrightarrow> \<not> has_digit r"
  unfolding has_digit_def by blast

text \<open>
  Claim C1. The text holds the label with the numeral 7 after it and, on the next line,
  the label again with the numeral 3; there the extractor returns 3.0, the numeral of the
  later place, and not the 7 that follows the first label. On the label followed by
  \<open>: 7.5\<close> alone it returns 5.0.
\<close>

theorem nota_final_later_numeral:
  "nota_final (nota_label @ asc '': 7'' @ [0x0A] @ nota_label @ asc '': 3'') = PyFloat (Fin 3)
   \<and> nota_final (nota_label @ asc '': 7.5'') = PyFloat (Fin 5)"
  by (simp add: eval_defs)

text \<open>
  Claim C2. A text that holds the label in any case variant and, anywhere after it, a
  numeral (so at least one digit \<open>d\<close>) yields a float between 0 and 10; a text in
  which no occurrence of the label, in any case variant, has a digit after it yields the
  string \<open>N/A\<close>.
\<close>

theorem nota_final_range_or_unavailable:
  "(ci_equal nota_label l \<and> is_digit d \<longrightarrow>
      (\<exists>x. nota_final (pre @ l @ mid @ d # post) = PyFloat (Fin x) \<and> 0 \<le> x \<and> x \<le> 10))
   \<and> ((\<forall>p l' r. s = p @ l' @ r \<and> ci_equal nota_label l' \<longrightarrow> \<not> has_digit r) \<longrightarrow>
      nota_final s = PyStr (asc ''N/A''))"
proof (intro conjI impI)
  assume "ci_equal nota_label l \<and> is_digit d"
  then have "re_search (pre @ l @ (mid @ d # post)) \<noteq> None"
    by (intro re_search_finds) (auto simp: has_digit_def)
  then obtain v where "v < 10"
    "nota_final (pre @ l @ mid @ d # post) = PyFloat (Fin (of_nat v))"
    using nota_final_last_digit [of "pre @ l @ mid @ d # post"] by auto
  then show "\<exists>x. nota_final (pre @ l @ mid @ d # post) = PyFloat (Fin x) \<and> 0 \<le> x \<and> x \<le> 10"
    by auto
next
  assume "\<forall>p l' r. s = p @ l' @ r \<and> ci_equal nota_label l' \<longrightarrow> \<not> has_digit r"
  then have "re_search s = None"
    by (intro re_search_None) blast
  then show "nota_final s = PyStr (asc ''N/A'')"
    by (simp add: nota_final_def)
qed

theorem nota_final_range_or_unavailable_witness:
  "ci_equal nota_label (asc ''NOTA GERAL DE 0 A 10 DA minha Performance'') \<and> is_digit 0x37
   \<and> (\<exists>x. nota_final (asc ''1. '' @ asc ''NOTA GERAL DE 0 A 10 DA minha Performance''
                        @ asc '': '' @ 0x37 # asc ''.5'')
            = PyFloat (Fin x) \<and> 0 \<le> x \<and> x \<le> 10)
   \<and> \<not> has_digit (asc ''sem nota'')
   \<and> nota_final (asc ''sem nota'') = PyStr (asc ''N/A'')"
proof -
  have h1: "ci_equal nota_label (asc ''NOTA GERAL DE 0 A 10 DA minha Performance'')"
    by (simp add: eval_defs)
  have h2: "is_digit 0x37"
    by (simp add: eval_defs)
  have nd: "\<not> has_digit (asc ''sem nota'')"
    by (simp add: eval_defs)
  have h3: "\<forall>p l' r. asc ''sem nota'' = p @ l' @ r \<and> ci_equal nota_label l' \<longrightarrow> \<not> has_digit r"
  proof (intro allI impI)
    fix p l' r
    assume a: "asc ''sem nota'' = p @ l' @ r \<and> ci_equal nota_label l'"
    from a have eq: "asc ''sem nota'' = p @ l' @ r" by (rule conjunct1)
    have "set r \<subseteq> set (p @ l' @ r)" by auto
    then have sub: "set r \<subseteq> set (asc ''sem nota'')" by (simp only: eq)
    with nd show "\<not> has_digit r" by (rule no_digit_subset)
  qed
  note inst = nota_final_range_or_unavailable
      [where l = "asc ''NOTA GERAL DE 0 A 10 DA minha Performance''"
        and d = "0x37" and pre = "asc ''1. ''" and mid = "asc '': ''" and post = "asc ''.5''"
        and s = "asc ''sem nota''"]
  have c1: "\<exists>x. nota_final (asc ''1. '' @ asc ''NOTA GERAL DE 0 A 10 DA minha Performance''
                        @ asc '': '' @ 0x37 # asc ''.5'')
            = PyFloat (Fin x) \<and> 0 \<le> x \<and> x \<le> 10"
    by (rule mp [OF conjunct1 [OF inst] conjI [OF h1 h2]])
  have c2: "nota_final (asc ''sem nota'') = PyStr (asc ''N/A'')"
    by (rule mp [OF conjunct2 [OF inst] h3])
  show ?thesis
    by (rule conjI [OF h1 conjI [OF h2 conjI [OF c1 conjI [OF nd c2]]]])
qed

section \<open>Properties of the digest\<close>

lemma map_of_dict_set: "map_of (dict_set d k v) k' = (if k' = k then Some v else map_of d k')"
  by (induction d) auto

lemma dict_get_dict_set:
  "dict_get (dict_set d k v) k' dflt = (if k' = k then v else dict_get d k' dflt)"
  by (simp add: dict_get_def map_of_dict_set)

lemma dict_get_append_missing:
  "k \<notin> fst ` set d \<Longrightarrow>
   dict_get (d @ [(k, v)]) k' v = dict_get d k' v"
proof (cases "map_of d k'")
  case None
  then show ?thesis by (simp add: dict_get_def map_add_def)
next
  case (Some x)
  then show ?thesis by (simp add: dict_get_def map_add_def)
qed

lemma historico_blocks_dicts:
  "\<exists>bs. historico_blocks rc i (map PyDict L) = Inr bs \<and> length bs = length L \<and>
        (\<forall>j < length L. bs ! j = historico_block rc (i + j) (L ! j))"
proof (induction L arbitrary: i)
  case Nil
  then show ?case by simp
next
  case (Cons d L)
  from Cons [of "i + 1"] obtain bs where bs:
    "historico_blocks rc (i + 1) (map PyDict L) = Inr bs" "length bs = length L"
    "\<forall>j < length L. bs ! j = historico_block rc (i + 1 + j) (L ! j)" by blast
  have "\<forall>j < length (d # L). (historico_block rc i d # bs) ! j
           = historico_block rc (i + j) ((d # L) ! j)"
    using bs(3) by (auto simp: nth_Cons split: nat.splits)
  with bs(1,2) show ?case by simp
qed

lemma key_neqs:
  "asc ''feedback_completo'' \<noteq> asc ''data''"
  "asc ''feedback_completo'' \<noteq> asc ''nome_arquivo''"
  "asc ''feedback_completo'' \<noteq> asc ''nota''"
  "asc ''feedback_completo'' \<noteq> asc ''resumo''"
  by (simp_all add: asc_def)

lemma sublistI3: "sublist x (a @ x @ b)"
  unfolding sublist_def by blast

text \<open>
  Claim C7. The digest of the empty log is the fixed sentence \<open>historico_vazio\<close>. The
  digest of a log \<open>L\<close> of records that is not empty is the blocks \<open>bs\<close> joined by line
  feeds, with as many blocks as \<open>L\<close> has records and block \<open>j\<close> made from record \<open>j\<close>.
  A block holds the formatted timestamp, file name, score and summary of its record, and
  it is the same block whatever the record holds under \<open>feedback_completo\<close>.
\<close>

theorem digest_blocks:
  "historico_str rc (PyList []) = Inr historico_vazio
   \<and> (L \<noteq> [] \<longrightarrow>
        (\<exists>bs. historico_str rc (PyList (map PyDict L)) = Inr (py_join [0x0A] bs)
              \<and> length bs = length L
              \<and> (\<forall>j < length L. bs ! j = historico_block rc j (L ! j))))
   \<and> sublist (py_format rc (dict_get d (asc ''data'') (PyStr (asc ''N/A''))))
         (historico_block rc i d)
   \<and> sublist (py_format rc (dict_get d (asc ''nome_arquivo'') (PyStr (asc ''N/A''))))
         (historico_block rc i d)
   \<and> sublist (py_format rc (dict_get d (asc ''nota'') (PyStr (asc ''N/A''))))
         (historico_block rc i d)
   \<and> sublist (py_format rc (dict_get d (asc ''resumo'') (PyStr (asc ''N/A''))))
         (historico_block rc i d)
   \<and> historico_block rc i (dict_set d (asc ''feedback_completo'') v) = historico_block rc i d"
proof (intro conjI impI)
  show "historico_str rc (PyList []) = Inr historico_vazio"
    by (simp add: historico_str_def py_truthy_def)
next
  assume "L \<noteq> []"
  moreover obtain bs where "historico_blocks rc 0 (map PyDict L) = Inr bs"
    "length bs = length L" "\<forall>j < length L. bs ! j = historico_block rc (0 + j) (L ! j)"
    using historico_blocks_dicts [of rc 0 L] by blast
  ultimately show "\<exists>bs. historico_str rc (PyList (map PyDict L)) = Inr (py_join [0x0A] bs)
              \<and> length bs = length L
              \<and> (\<forall>j < length L. bs ! j = historico_block rc j (L ! j))"
    by (auto simp: historico_str_def py_truthy_def)
next
  show "sublist (py_format rc (dict_get d (asc ''data'') (PyStr (asc ''N/A''))))
         (historico_block rc i d)"
    unfolding historico_block_def
    by (rule sublistI3 [where a = "asc ''--- Feedback '' @ str_of_nat (i + 1) @ asc '' ---'' @ [0x0A] @ asc ''Data: ''", simplified append_assoc])
next
  show "sublist (py_format rc (dict_get d (asc ''nome_arquivo'') (PyStr (asc ''N/A''))))
         (historico_block rc i d)"
    unfolding historico_block_def sublist_def
    by (metis append.assoc)
next
  show "sublist (py_format rc (dict_get d (asc ''nota'') (PyStr (asc ''N/A''))))
         (historico_block rc i d)"
    unfolding historico_block_def sublist_def
    by (metis append.assoc)
next
  show "sublist (py_format rc (dict_get d (asc ''resumo'') (PyStr (asc ''N/A''))))
         (historico_block rc i d)"
    unfolding historico_block_def sublist_def
    by (metis append.assoc)
next
  show "historico_block rc i (dict_set d (asc ''feedback_completo'') v) = historico_block rc i d"
    by (simp add: historico_block_def dict_get_dict_set key_neqs [symmetric])
qed


theorem digest_blocks_witness:
  "[[(asc ''data'', PyStr (asc ''d1''))], []] \<noteq> []
   \<and> (\<exists>bs. historico_str (\<lambda>v. []) (PyList (map PyDict [[(asc ''data'', PyStr (asc ''d1''))], []]))
               = Inr (py_join [0x0A] bs)
            \<and> length bs = 2
            \<and> bs ! 0 = historico_block (\<lambda>v. []) 0 [(asc ''data'', PyStr (asc ''d1''))]
            \<and> bs ! 1 = historico_block (\<lambda>v. []) 1 [])"
proof -
  let ?L = "[[(asc ''data'', PyStr (asc ''d1''))], []] :: (pystr \<times> pyval) list list"
  have ne: "?L \<noteq> []" by simp
  note inst = digest_blocks [where L = ?L and rc = "\<lambda>v. []" and d = "[]" and i = 0 and v = PyNone]
  from inst ne obtain bs where bs:
    "historico_str (\<lambda>v. []) (PyList (map PyDict ?L)) = Inr (py_join [0x0A] bs)"
    "length bs = length ?L" "\<forall>j < length ?L. bs ! j = historico_block (\<lambda>v. []) j (?L ! j)"
    by blast
  from bs(3) have "bs ! 0 = historico_block (\<lambda>v. []) 0 (?L ! 0)"
    "bs ! 1 = historico_block (\<lambda>v. []) 1 (?L ! 1)" by simp_all
  with bs(1,2) ne show ?thesis by auto
qed

text \<open>
  Claim C10. On a list of dicts the summarizer always returns a digest, whichever keys
  the dicts have. A record that lacks a key gives the block of the same record with the
  string \<open>N/A\<close> under that key, and the record with no key at all gives the block with
  \<open>N/A\<close> in all four places.
\<close>

theorem digest_missing_fields:
  "(\<exists>s. historico_str rc (PyList (map PyDict L)) = Inr s)
   \<and> (map_of d k = None \<longrightarrow>
        historico_block rc i (dict_set d k (PyStr (asc ''N/A''))) = historico_block rc i d)
   \<and> historico_block rc i [] =
        asc ''--- Feedback '' @ str_of_nat (i + 1) @ asc '' ---'' @ [0x0A]
        @ asc ''Data: N/A'' @ [0x0A] @ asc ''Arquivo: N/A'' @ [0x0A]
        @ asc ''Nota: N/A'' @ [0x0A] @ asc ''Resumo: N/A'' @ [0x0A]"
proof (intro conjI impI)
  obtain bs where "historico_blocks rc 0 (map PyDict L) = Inr bs"
    using historico_blocks_dicts [of rc 0 L] by blast
  then show "\<exists>s. historico_str rc (PyList (map PyDict L)) = Inr s"
    by (simp add: historico_str_def)
next
  assume "map_of d k = None"
  then have "dict_get d k (PyStr (asc ''N/A'')) = PyStr (asc ''N/A'')"
    by (simp add: dict_get_def)
  then show "historico_block rc i (dict_set d k (PyStr (asc ''N/A''))) = historico_block rc i d"
    by (simp add: historico_block_def dict_get_dict_set)
next
  show "historico_block rc i [] =
        asc ''--- Feedback '' @ str_of_nat (i + 1) @ asc '' ---'' @ [0x0A]
        @ asc ''Data: N/A'' @ [0x0A] @ asc ''Arquivo: N/A'' @ [0x0A]
        @ asc ''Nota: N/A'' @ [0x0A] @ asc ''Resumo: N/A'' @ [0x0A]"
    by (simp add: historico_block_def dict_get_def py_format_def asc_def)
qed

theorem digest_missing_fields_witness:
  "map_of [(asc ''data'', PyStr (asc ''2024-05-01 10:00:00''))] (asc ''nota'') = None
   \<and> (\<exists>s. historico_str (\<lambda>v. []) (PyList (map PyDict [[], [(asc ''data'', PyStr (asc ''x''))]])) = Inr s)
   \<and> historico_block (\<lambda>v. []) 0
        (dict_set [(asc ''data'', PyStr (asc ''2024-05-01 10:00:00''))] (asc ''nota'')
           (PyStr (asc ''N/A'')))
      = historico_block (\<lambda>v. []) 0 [(asc ''data'', PyStr (asc ''2024-05-01 10:00:00''))]"
proof -
  have h: "map_of [(asc ''data'', PyStr (asc ''2024-05-01 10:00:00''))] (asc ''nota'') = None"
    by (simp add: asc_def)
  note inst = digest_missing_fields [where rc = "\<lambda>v. []"
      and L = "[[], [(asc ''data'', PyStr (asc ''x''))]]"
      and d = "[(asc ''data'', PyStr (asc ''2024-05-01 10:00:00''))]"
      and k = "asc ''nota''" and i = 0]
  from inst h show ?thesis by blast
qed

lemma length_asc: "length (asc s) = length s"
  by (simp add: asc_def)

section \<open>Properties of the record and of the prompt\<close>

text \<open>
  Claim C6. The record made for a response \<open>r\<close> stores \<open>r\<close> whole under
  \<open>feedback_completo\<close> and \<open>resumo_of r\<close> under \<open>resumo\<close>. The summary is a prefix of
  \<open>r\<close>, or such a prefix followed by the marker \<open>...\<close>; when \<open>r\<close> has more than 500
  characters it is the first 500 followed by the marker, 500 plus the length of the marker
  in all, and otherwise it is \<open>r\<close> itself.
\<close>

theorem summary_prefix_of_full_text:
  "dict_get (new_feedback_entry ts nome r) (asc ''feedback_completo'') PyNone = PyStr r
   \<and> dict_get (new_feedback_entry ts nome r) (asc ''resumo'') PyNone = PyStr (resumo_of r)
   \<and> (\<exists>p. prefix p r \<and> (resumo_of r = p \<or> resumo_of r = p @ asc ''...''))
   \<and> (length r > 500 \<longrightarrow>
         resumo_of r = take 500 r @ asc ''...''
         \<and> length (resumo_of r) = 500 + length (asc ''...''))
   \<and> (length r \<le> 500 \<longrightarrow> resumo_of r = r)"
proof (intro conjI impI)
  show "dict_get (new_feedback_entry ts nome r) (asc ''feedback_completo'') PyNone = PyStr r"
    by (simp add: dict_get_def new_feedback_entry_def asc_def)
  show "dict_get (new_feedback_entry ts nome r) (asc ''resumo'') PyNone = PyStr (resumo_of r)"
    by (simp add: dict_get_def new_feedback_entry_def asc_def)
  show "\<exists>p. prefix p r \<and> (resumo_of r = p \<or> resumo_of r = p @ asc ''...'')"
  proof (cases "length r > 500")
    case True
    then have "prefix (take 500 r) r \<and> resumo_of r = take 500 r @ asc ''...''"
      by (simp add: resumo_of_def take_is_prefix)
    then show ?thesis by blast
  next
    case False
    then have "prefix r r \<and> resumo_of r = r" by (simp add: resumo_of_def)
    then show ?thesis by blast
  qed
next
  assume "length r > 500"
  then show "resumo_of r = take 500 r @ asc ''...''" by (simp add: resumo_of_def)
next
  assume "length r > 500"
  then show "length (resumo_of r) = 500 + length (asc ''...'')"
    by (simp add: resumo_of_def length_asc)
next
  assume "length r \<le> 500"
  then show "resumo_of r = r" by (simp add: resumo_of_def)
qed

theorem summary_prefix_of_full_text_witness:
  "length (replicate 501 (0x61 :: nat)) > 500
   \<and> resumo_of (replicate 501 0x61) = replicate 500 0x61 @ asc ''...''
   \<and> length (resumo_of (replicate 501 0x61)) = 503
   \<and> length (asc ''Boa entrevista.'') \<le> 500
   \<and> resumo_of (asc ''Boa entrevista.'') = asc ''Boa entrevista.''"
proof -
  have h1: "length (replicate 501 (0x61 :: nat)) > 500" by simp
  have h2: "length (asc ''Boa entrevista.'') \<le> 500" by (simp add: length_asc)
  note i1 = summary_prefix_of_full_text [where r = "replicate 501 0x61"]
  note i2 = summary_prefix_of_full_text [where r = "asc ''Boa entrevista.''"]
  from i1 h1 have a: "resumo_of (replicate 501 0x61) = take 500 (replicate 501 0x61) @ asc ''...''"
    "length (resumo_of (replicate 501 0x61)) = 500 + length (asc ''...'')" by blast+
  from i2 h2 have b: "resumo_of (asc ''Boa entrevista.'') = asc ''Boa entrevista.''" by blast
  from a b h1 h2 show ?thesis by (simp add: length_asc)
qed

text \<open>
  Claim C8. The prompt is a function of the digest and the transcript alone: the three
  fixed texts of the template with the two arguments between them. Both arguments are
  contiguous parts of it, for every transcript, the empty one included.
\<close>

theorem prompt_contains_inputs:
  "sublist transcricao (pergunta historico transcricao)
   \<and> sublist historico (pergunta historico transcricao)
   \<and> pergunta historico transcricao
        = prompt_head @ historico @ prompt_middle @ transcricao @ prompt_tail
   \<and> pergunta historico [] = prompt_head @ historico @ prompt_middle @ prompt_tail"
proof (intro conjI)
  show "sublist transcricao (pergunta historico transcricao)"
    unfolding pergunta_def sublist_def by (metis append.assoc)
  show "sublist historico (pergunta historico transcricao)"
    unfolding pergunta_def sublist_def by blast
qed (simp_all add: pergunta_def)


end
